theory Spec2Isabelle
  imports Main "HOL-Library.Sublist"
begin

section \<open>Strings of the Python runtime\<close>

text \<open>
  A Python \<^verbatim>\<open>str\<close> is a sequence of Unicode code points, so a string is a list of
  code points (natural numbers), not of bytes. A literal of the source is written
  \<open>ustr ''...''\<close>; all literals of the source are ASCII.
\<close>

type_synonym codepoint = nat
type_synonym ustring = "codepoint list"

definition ustr :: "string \<Rightarrow> ustring" where
  "ustr s = map of_char s"

text \<open>
  The parts of the runtime that the server reads but that are not program text: the
  Unicode character database beyond ASCII (\<^verbatim>\<open>Py_UNICODE_ISALNUM\<close>,
  \<^verbatim>\<open>Py_UNICODE_TODECIMAL\<close>), \<^verbatim>\<open>repr\<close> of a string (used in the message of
  a \<^verbatim>\<open>ValueError\<close>), and the interpreter's limit on the digits of an integer literal
  (\<^verbatim>\<open>sys.get_int_max_str_digits()\<close>, \<open>0\<close> for no limit).
\<close>

record runtime =
  uni_alnum :: "codepoint \<Rightarrow> bool"
  uni_decimal :: "codepoint \<Rightarrow> nat option"
  py_repr :: "ustring \<Rightarrow> ustring"
  int_max_str_digits :: nat

text \<open>
  \<^verbatim>\<open>Py_UNICODE_ISSPACE\<close>: the table \<^verbatim>\<open>_Py_ascii_whitespace\<close> below 128
  (tab, LF, VT, FF, CR, the four separators FS GS RS US, and space), and
  \<^verbatim>\<open>_PyUnicode_IsWhitespace\<close> above. Both \<^verbatim>\<open>str.strip()\<close> and the class
  \<^verbatim>\<open>\s\<close> of \<^verbatim>\<open>re\<close> on a \<^verbatim>\<open>str\<close> pattern use it.
\<close>

definition py_isspace :: "codepoint \<Rightarrow> bool" where
  "py_isspace c \<longleftrightarrow>
     (0x09 \<le> c \<and> c \<le> 0x0D) \<or> (0x1C \<le> c \<and> c \<le> 0x20) \<or> c = 0x85 \<or> c = 0xA0 \<or>
     c = 0x1680 \<or> (0x2000 \<le> c \<and> c \<le> 0x200A) \<or> c = 0x2028 \<or> c = 0x2029 \<or>
     c = 0x202F \<or> c = 0x205F \<or> c = 0x3000"

definition ascii_alnum :: "codepoint \<Rightarrow> bool" where
  "ascii_alnum c \<longleftrightarrow>
     (of_char CHR ''0'' \<le> c \<and> c \<le> of_char CHR ''9'') \<or>
     (of_char CHR ''A'' \<le> c \<and> c \<le> of_char CHR ''Z'') \<or>
     (of_char CHR ''a'' \<le> c \<and> c \<le> of_char CHR ''z'')"

definition py_isalnum :: "'a runtime_scheme \<Rightarrow> codepoint \<Rightarrow> bool" where
  "py_isalnum R c = (if c < 128 then ascii_alnum c else uni_alnum R c)"

text \<open>
  The class \<^verbatim>\<open>\w\<close> of \<^verbatim>\<open>re\<close> on a \<^verbatim>\<open>str\<close> pattern without the
  \<^verbatim>\<open>re.ASCII\<close> flag: \<^verbatim>\<open>Py_UNICODE_ISALNUM(ch) || ch == '_'\<close>.
\<close>

definition re_word :: "'a runtime_scheme \<Rightarrow> codepoint \<Rightarrow> bool" where
  "re_word R c \<longleftrightarrow> py_isalnum R c \<or> c = of_char CHR ''_''"

text \<open>\<^verbatim>\<open>s.strip()\<close>: whitespace removed at both ends.\<close>

definition str_strip :: "ustring \<Rightarrow> ustring" where
  "str_strip s = rev (dropWhile py_isspace (rev (dropWhile py_isspace s)))"

section \<open>Input sanitizer\<close>

text \<open>
  \<^verbatim>\<open>re.sub(pattern, repl, text)\<close> for a pattern that is one character class: the
  text is scanned left to right and every character of the class is replaced by \<open>repl\<close>.
\<close>

fun re_sub_class :: "(codepoint \<Rightarrow> bool) \<Rightarrow> ustring \<Rightarrow> ustring \<Rightarrow> ustring" where
  "re_sub_class cls repl [] = []"
| "re_sub_class cls repl (c # cs) =
     (if cls c then repl @ re_sub_class cls repl cs else c # re_sub_class cls repl cs)"

text \<open>The characters that the negated class \<^verbatim>\<open>[^\w\s\-,.]\<close> does not match.\<close>

definition kept_char :: "'a runtime_scheme \<Rightarrow> codepoint \<Rightarrow> bool" where
  "kept_char R c \<longleftrightarrow>
     re_word R c \<or> py_isspace c \<or> c = of_char CHR ''-'' \<or> c = of_char CHR '','' \<or>
     c = of_char CHR ''.''"

text \<open>\<^verbatim>\<open>def sanitize_input(text): return re.sub(r'[^\w\s\-,.]', '', text)\<close>\<close>

definition sanitize_input :: "'a runtime_scheme \<Rightarrow> ustring \<Rightarrow> ustring" where
  "sanitize_input R text = re_sub_class (\<lambda>c. \<not> kept_char R c) [] text"

text \<open>
  The set the specification names, \<^verbatim>\<open>[A-Za-z0-9_\s\-,.]\<close>: ASCII letters and
  digits, underscore, whitespace, hyphen, comma, period.
\<close>

definition spec_allowed :: "codepoint \<Rightarrow> bool" where
  "spec_allowed c \<longleftrightarrow>
     ascii_alnum c \<or> c = of_char CHR ''_'' \<or> py_isspace c \<or> c = of_char CHR ''-'' \<or>
     c = of_char CHR '','' \<or> c = of_char CHR ''.''"

section \<open>Integers as text\<close>

text \<open>\<^verbatim>\<open>Py_ISSPACE\<close> of the C runtime: space, tab, LF, VT, FF, CR.\<close>

definition c_isspace :: "codepoint \<Rightarrow> bool" where
  "c_isspace c \<longleftrightarrow> (9 \<le> c \<and> c \<le> 13) \<or> c = 32"

definition ascii_digit :: "codepoint \<Rightarrow> bool" where
  "ascii_digit c \<longleftrightarrow> of_char CHR ''0'' \<le> c \<and> c \<le> of_char CHR ''9''"

definition py_todecimal :: "'a runtime_scheme \<Rightarrow> codepoint \<Rightarrow> nat option" where
  "py_todecimal R c =
     (if c < 128 then (if ascii_digit c then Some (c - of_char CHR ''0'') else None)
      else uni_decimal R c)"

text \<open>
  \<^verbatim>\<open>_PyUnicode_TransformDecimalAndSpaceToASCII\<close>, the first step of
  \<^verbatim>\<open>int(s)\<close>: an ASCII string is taken as it is; otherwise whitespace becomes a
  space, a Unicode decimal digit its ASCII digit, and the first other character beyond
  U+007E becomes \<^verbatim>\<open>?\<close> and ends the text.
\<close>

fun transform_chars :: "'a runtime_scheme \<Rightarrow> ustring \<Rightarrow> ustring" where
  "transform_chars R [] = []"
| "transform_chars R (c # cs) =
     (if c < 127 then c # transform_chars R cs
      else if py_isspace c then of_char CHR '' '' # transform_chars R cs
      else (case py_todecimal R c of
              None \<Rightarrow> [of_char CHR ''?'']
            | Some d \<Rightarrow> (of_char CHR ''0'' + d) # transform_chars R cs))"

definition transform_decimal_and_space :: "'a runtime_scheme \<Rightarrow> ustring \<Rightarrow> ustring" where
  "transform_decimal_and_space R s = (if list_all (\<lambda>c. c < 128) s then s else transform_chars R s)"

datatype int_error = InvalidLiteral | ExceedsLimit nat nat

definition digit_or_underscore :: "codepoint \<Rightarrow> bool" where
  "digit_or_underscore c \<longleftrightarrow> ascii_digit c \<or> c = of_char CHR ''_''"

fun double_underscore :: "ustring \<Rightarrow> bool" where
  "double_underscore (a # b # cs) =
     ((a = of_char CHR ''_'' \<and> b = of_char CHR ''_'') \<or> double_underscore (b # cs))"
| "double_underscore cs = False"

definition digits_value :: "ustring \<Rightarrow> int" where
  "digits_value ds = foldl (\<lambda>a d. 10 * a + int (d - of_char CHR ''0'')) 0 ds"

text \<open>
  \<^verbatim>\<open>PyLong_FromString\<close> in base 10, in the order of its checks: leading whitespace,
  one sign, no leading underscore, a run of digits and underscores with no two
  underscores in a row and none at the end, the limit on the number of digits (checked
  above 640 digits when the limit is not 0), at least one digit, trailing whitespace, and
  nothing after it.
\<close>

definition long_from_string :: "'a runtime_scheme \<Rightarrow> ustring \<Rightarrow> int_error + int" where
  "long_from_string R s =
     (let s1 = dropWhile c_isspace s;
          negative = (s1 \<noteq> [] \<and> hd s1 = of_char CHR ''-'');
          s2 = (if s1 \<noteq> [] \<and> (hd s1 = of_char CHR ''+'' \<or> hd s1 = of_char CHR ''-'')
                then tl s1 else s1);
          body = takeWhile digit_or_underscore s2;
          rest = dropWhile digit_or_underscore s2;
          digits = filter ascii_digit body
      in if s2 \<noteq> [] \<and> hd s2 = of_char CHR ''_'' then Inl InvalidLiteral
         else if double_underscore body then Inl InvalidLiteral
         else if body \<noteq> [] \<and> last body = of_char CHR ''_'' then Inl InvalidLiteral
         else if 640 < length digits \<and> 0 < int_max_str_digits R \<and>
                 int_max_str_digits R < length digits
           then Inl (ExceedsLimit (int_max_str_digits R) (length digits))
         else if body = [] then Inl InvalidLiteral
         else if dropWhile c_isspace rest \<noteq> [] then Inl InvalidLiteral
         else Inr (if negative then - digits_value digits else digits_value digits))"

text \<open>\<^verbatim>\<open>str(n)\<close> of an integer, as an f-string inserts it.\<close>

fun str_nat :: "nat \<Rightarrow> ustring" where
  "str_nat n =
     (if n < 10 then [of_char CHR ''0'' + n]
      else str_nat (n div 10) @ [of_char CHR ''0'' + n mod 10])"

declare str_nat.simps [simp del]

definition str_int :: "int \<Rightarrow> ustring" where
  "str_int i = (if i < 0 then of_char CHR ''-'' # str_nat (nat (- i)) else str_nat (nat i))"

definition apostrophe :: ustring where
  "apostrophe = [39]"

text \<open>
  \<^verbatim>\<open>int(s)\<close> on a string: the value, or the text \<^verbatim>\<open>str(e)\<close> of the
  \<^verbatim>\<open>ValueError\<close> it raises.
\<close>

definition py_int :: "'a runtime_scheme \<Rightarrow> ustring \<Rightarrow> ustring + int" where
  "py_int R s =
     (case long_from_string R (transform_decimal_and_space R s) of
        Inr v \<Rightarrow> Inr v
      | Inl InvalidLiteral \<Rightarrow>
          Inl (ustr ''invalid literal for int() with base 10: '' @ take 200 (py_repr R s))
      | Inl (ExceedsLimit m n) \<Rightarrow>
          Inl (ustr ''Exceeds the limit ('' @ str_nat m @
               ustr '' digits) for integer string conversion: value has '' @ str_nat n @
               ustr '' digits; use sys.set_int_max_str_digits() to increase the limit''))"

text \<open>The expression \<^verbatim>\<open>int(s) if s.strip() else fallback\<close> of the numeric parameters.\<close>

definition int_or_default :: "'a runtime_scheme \<Rightarrow> ustring \<Rightarrow> int \<Rightarrow> ustring + int" where
  "int_or_default R s fallback = (if str_strip s \<noteq> [] then py_int R s else Inr fallback)"

section \<open>Lists and text of the report\<close>

text \<open>\<^verbatim>\<open>xs[:n]\<close>: a negative \<open>n\<close> counts from the end.\<close>

definition slice_to :: "int \<Rightarrow> 'a list \<Rightarrow> 'a list" where
  "slice_to n xs = (if 0 \<le> n then take (nat n) xs else take (length xs - nat (- n)) xs)"

fun str_join :: "ustring \<Rightarrow> ustring list \<Rightarrow> ustring" where
  "str_join sep [] = []"
| "str_join sep [x] = x"
| "str_join sep (x # y # ys) = x @ sep @ str_join sep (y # ys)"

text \<open>\<^verbatim>\<open>s.split()\<close>: the maximal runs of characters that are not whitespace.\<close>

function str_split :: "ustring \<Rightarrow> ustring list" where
  "str_split [] = []"
| "str_split (c # cs) =
     (if py_isspace c then str_split cs
      else (c # takeWhile (\<lambda>x. \<not> py_isspace x) cs) #
           str_split (dropWhile (\<lambda>x. \<not> py_isspace x) cs))"
  by pat_completeness auto
termination
  by (relation "measure length") (auto simp: less_Suc_eq_le length_dropWhile_le)

section \<open>Collaborators: the search endpoint and the generative backend\<close>

text \<open>
  What an operation does to the outside is recorded as the list of its calls, in order:
  an HTTP GET of a URL by \<^verbatim>\<open>client.get\<close>, or a prompt handed to
  \<^verbatim>\<open>model.generate_content\<close>.
\<close>

datatype event = HttpGet ustring | GenerateContent ustring

text \<open>
  The page as BeautifulSoup shows it to the code: the \<^verbatim>\<open>div\<close> blocks of class
  \<^verbatim>\<open>result\<close> in document order, each with its first anchor of class
  \<^verbatim>\<open>result__a\<close> and of class \<^verbatim>\<open>result__snippet\<close> when it has one; an anchor
  gives its stripped text and its \<^verbatim>\<open>href\<close> attribute when it has one.
\<close>

record anchor =
  a_text :: ustring
  a_href :: "ustring option"

record result_div =
  result__a :: "anchor option"
  result__snippet :: "anchor option"

record search_result =
  title :: ustring
  link :: ustring
  snippet :: ustring

datatype markup = ParseRaises ustring | Soup "result_div list"

text \<open>
  The outcome of \<^verbatim>\<open>client.get(url, ..., timeout=15, follow_redirects=True)\<close>: the
  call raises (a transport error, or the timeout), or it returns a response with a status
  code and a body; reading and parsing the body may raise too.
\<close>

datatype http_reply = TransportError ustring | Timeout | Response nat markup

text \<open>
  \<^verbatim>\<open>json.dumps\<close> of the result list; \<^verbatim>\<open>json.loads\<close> gives the list back (the
  values are lists of objects with three string fields, on which the round trip is the
  identity).
\<close>

datatype json = Dumps "search_result list"

fun json_loads :: "json \<Rightarrow> search_result list" where
  "json_loads (Dumps rs) = rs"

text \<open>
  The process and its surroundings: the runtime, the environment variable
  \<^verbatim>\<open>GEMINI_API_KEY\<close> (empty when it is not set), the generative service (the text of
  the response, or the message of the exception it raises), and the search endpoint.
\<close>

record world = runtime +
  GEMINI_API_KEY :: ustring
  generate_content :: "ustring \<Rightarrow> ustring + ustring"
  http_get :: "ustring \<Rightarrow> http_reply"

text \<open>
  The module-level handle: \<^verbatim>\<open>model = genai.GenerativeModel(...)\<close> when the key is
  not empty, \<^verbatim>\<open>None\<close> otherwise.
\<close>

definition model :: "world \<Rightarrow> (ustring \<Rightarrow> ustring + ustring) option" where
  "model W = (if GEMINI_API_KEY W \<noteq> [] then Some (generate_content W) else None)"

section \<open>Search\<close>

datatype search_exn = RequestError ustring | ReadTimeout | HTTPStatusError nat | ParseError ustring

definition search_url :: "ustring \<Rightarrow> ustring" where
  "search_url query = ustr ''https://html.duckduckgo.com/html/?q='' @ query"

text \<open>One block of the page: an entry when it has a title anchor, nothing otherwise.\<close>

definition result_entries :: "result_div \<Rightarrow> search_result list" where
  "result_entries d =
     (case result__a d of
        None \<Rightarrow> []
      | Some title_elem \<Rightarrow>
          [\<lparr> title = a_text title_elem,
             link = (case a_href title_elem of None \<Rightarrow> [] | Some h \<Rightarrow> h),
             snippet = (case result__snippet d of None \<Rightarrow> [] | Some snippet_elem \<Rightarrow> a_text snippet_elem) \<rparr>])"

text \<open>
  The body of the \<^verbatim>\<open>try\<close> of \<^verbatim>\<open>web_search_free\<close>: \<^verbatim>\<open>Inl\<close> is an
  exception raised inside it. \<^verbatim>\<open>raise_for_status\<close> raises unless the status is 2xx;
  \<^verbatim>\<open>find_all(..., limit=10)\<close> looks at the first ten blocks.
\<close>

definition web_search_try :: "world \<Rightarrow> ustring \<Rightarrow> search_exn + json" where
  "web_search_try W query =
     (case http_get W (search_url query) of
        TransportError e \<Rightarrow> Inl (RequestError e)
      | Timeout \<Rightarrow> Inl ReadTimeout
      | Response status page \<Rightarrow>
          if 200 \<le> status \<and> status \<le> 299 then
            (case page of
               ParseRaises e \<Rightarrow> Inl (ParseError e)
             | Soup divs \<Rightarrow> Inr (Dumps (concat (map result_entries (take 10 divs)))))
          else Inl (HTTPStatusError status))"

text \<open>
  \<^verbatim>\<open>web_search_free\<close>: \<^verbatim>\<open>except Exception\<close> turns every exception of the body
  into \<^verbatim>\<open>json.dumps([])\<close>. The GET is issued in every case.
\<close>

definition web_search_free :: "world \<Rightarrow> ustring \<Rightarrow> json \<times> event list" where
  "web_search_free W query =
     ((case web_search_try W query of Inl e \<Rightarrow> Dumps [] | Inr results \<Rightarrow> results),
      [HttpGet (search_url query)])"

section \<open>Analysis backend adapter\<close>

definition gemini_analyze :: "world \<Rightarrow> ustring \<Rightarrow> ustring \<times> event list" where
  "gemini_analyze W prompt =
     (case model W of
        None \<Rightarrow> (ustr ''Error: Gemini API key not configured'', [])
      | Some m \<Rightarrow>
          ((case m prompt of Inl e \<Rightarrow> ustr ''Error: '' @ e | Inr response_text \<Rightarrow> response_text),
           [GenerateContent prompt]))"

section \<open>Listings of search results\<close>

text \<open>
  The listing of \<^verbatim>\<open>research_uvz_topic\<close> and \<^verbatim>\<open>competitive_analysis\<close>:
  \<^verbatim>\<open>"\n\n".join([f"{i+1}. {r['title']}\n{r['snippet']}\n{r['link']}" for i, r in enumerate(rs)])\<close>.
\<close>

definition source_listing :: "search_result list \<Rightarrow> ustring" where
  "source_listing rs =
     str_join (ustr ''\<newline>\<newline>'')
       (map (\<lambda>(i, r). str_int (int i + 1) @ ustr ''. '' @ title r @ ustr ''\<newline>'' @ snippet r @ ustr ''\<newline>'' @ link r)
            (enumerate 0 rs))"

text \<open>
  The listing of \<^verbatim>\<open>validate_uvz_demand\<close>:
  \<^verbatim>\<open>"\n\n".join([f"{i+1}. {r['title']}\n{r['snippet']}" for i, r in enumerate(all_results)])\<close>.
\<close>

definition signal_listing :: "search_result list \<Rightarrow> ustring" where
  "signal_listing rs =
     str_join (ustr ''\<newline>\<newline>'')
       (map (\<lambda>(i, r). str_int (int i + 1) @ ustr ''. '' @ title r @ ustr ''\<newline>'' @ snippet r)
            (enumerate 0 rs))"

section \<open>The nine operations\<close>

text \<open>
  Each operation returns its report and the calls it made. The blank checks and the
  sanitizing stand before the \<^verbatim>\<open>try\<close> of the source and cannot raise on strings.
  Inside the \<^verbatim>\<open>try\<close>, only \<^verbatim>\<open>int(...)\<close> can raise: the search and the adapter
  catch their own exceptions, and every result of the search has its three keys. So
  \<^verbatim>\<open>except Exception as e: return f"Error: {str(e)}"\<close> is the \<^verbatim>\<open>Inl\<close> branch of
  the numeric parameter, and an operation without one has no such branch.
\<close>

definition identify_industry_niches :: "world \<Rightarrow> ustring \<Rightarrow> ustring \<Rightarrow> ustring \<times> event list" where
  "identify_industry_niches W industry depth =
     (if str_strip industry = [] then (ustr ''Error: Industry name is required'', [])
      else if model W = None then (ustr ''Error: Gemini API key not configured'', [])
      else
        (let industry_clean = sanitize_input W industry in
         case int_or_default W depth 3 of
           Inl e \<Rightarrow> (ustr ''Error: '' @ e, [])
         | Inr depth_int \<Rightarrow>
             (let prompt = ustr ''Analyze the '' @ industry_clean @ ustr '' industry and identify '' @ str_int depth_int @ ustr '' highly specific niches. For each provide: 1. Niche Name 2. Market Size 3. Unique Value Zone (UVZ) 4. Target Audience 5. Differentiation 6. Monetization Potential. Format as structured markdown.'';
                  (analysis, calls) = gemini_analyze W prompt
              in (ustr ''Industry Analysis: '' @ industry_clean @ ustr ''\<newline>\<newline>'' @ analysis @ ustr ''\<newline>\<newline>Next Steps: Use drill_uvz to go deeper'',
                  calls))))"

definition drill_uvz :: "world \<Rightarrow> ustring \<Rightarrow> ustring \<Rightarrow> ustring \<times> event list" where
  "drill_uvz W niche focus_area =
     (if str_strip niche = [] then (ustr ''Error: Niche description is required'', [])
      else if model W = None then (ustr ''Error: Gemini API key not configured'', [])
      else
        (let niche_clean = sanitize_input W niche;
             focus_clean = (if str_strip focus_area \<noteq> [] then sanitize_input W focus_area
                            else ustr ''general opportunities'');
             prompt = ustr ''Deep UVZ analysis for niche: '' @ niche_clean @ ustr '', focus: '' @ focus_clean @ ustr ''. Provide: Problem Statement, Target Avatar, Current Solutions, The Gap, Value Proposition, Validation Signals, Competition Level, Monetization Pathways, Quick Win Strategy. Be extremely specific.'';
             (analysis, calls) = gemini_analyze W prompt
         in (ustr ''UVZ Deep Dive: '' @ niche_clean @ ustr ''\<newline>\<newline>'' @ analysis, calls)))"

definition research_uvz_topic :: "world \<Rightarrow> ustring \<Rightarrow> ustring \<Rightarrow> ustring \<times> event list" where
  "research_uvz_topic W topic sources =
     (if str_strip topic = [] then (ustr ''Error: Topic is required'', [])
      else
        (let topic_clean = sanitize_input W topic in
         case int_or_default W sources 10 of
           Inl e \<Rightarrow> (ustr ''Error: '' @ e, [])
         | Inr num_sources \<Rightarrow>
             (let (search_results, calls) = web_search_free W (topic_clean @ ustr '' guide tutorial best practices'');
                  results_data = json_loads search_results
              in if results_data = [] then (ustr ''No search results found for: '' @ topic_clean, calls)
                 else
                   (let sources_text = source_listing (slice_to num_sources results_data)
                    in if model W \<noteq> None then
                         (let analysis_prompt = ustr ''Based on these search results about '' @ apostrophe @ topic_clean @ apostrophe @ ustr '', provide: Key Insights, Common Themes, Best Practices, Knowledge Gaps, Content Opportunities.\<newline>\<newline>'' @ sources_text;
                              (ai_analysis, calls2) = gemini_analyze W analysis_prompt
                          in (ustr ''Research Report: '' @ topic_clean @ ustr ''\<newline>\<newline>AI Analysis:\<newline>'' @ ai_analysis @ ustr ''\<newline>\<newline>Sources:\<newline>'' @ sources_text,
                              calls @ calls2))
                       else (ustr ''Research Results: '' @ topic_clean @ ustr ''\<newline>\<newline>Sources:\<newline>'' @ sources_text,
                             calls)))))"

text \<open>
  The loop of \<^verbatim>\<open>validate_uvz_demand\<close> over its queries:
  \<^verbatim>\<open>results = await web_search_free(query); all_results.extend(json.loads(results)[:3])\<close>.
\<close>

fun demand_loop ::
  "world \<Rightarrow> ustring list \<Rightarrow> search_result list \<times> event list \<Rightarrow> search_result list \<times> event list" where
  "demand_loop W [] (all_results, calls) = (all_results, calls)"
| "demand_loop W (query # queries) (all_results, calls) =
     (let (results, calls1) = web_search_free W query
      in demand_loop W queries (all_results @ slice_to 3 (json_loads results), calls @ calls1))"

definition validate_uvz_demand :: "world \<Rightarrow> ustring \<Rightarrow> ustring \<times> event list" where
  "validate_uvz_demand W uvz_description =
     (if str_strip uvz_description = [] then (ustr ''Error: UVZ description is required'', [])
      else
        (let uvz_clean = sanitize_input W uvz_description;
             (all_results, calls) =
                demand_loop W [uvz_clean @ ustr '' problems'', uvz_clean @ ustr '' solutions needed'', ustr ''how to '' @ uvz_clean] ([], [])
         in if all_results = [] then (ustr ''Limited demand signals found for: '' @ uvz_clean, calls)
            else
              (let findings = signal_listing all_results
               in if model W \<noteq> None then
                    (let validation_prompt = ustr ''Analyze market signals for: '' @ uvz_clean @ ustr ''\<newline>\<newline>'' @ findings @ ustr ''\<newline>\<newline>Provide: Demand Level, Market Signals, Competition Analysis, Opportunity Score (1-10), Red Flags, Green Lights, Recommended Action (Go/No-Go).'';
                         (validation, calls2) = gemini_analyze W validation_prompt
                     in (ustr ''Demand Validation: '' @ uvz_clean @ ustr ''\<newline>\<newline>'' @ validation @ ustr ''\<newline>\<newline>Raw Signals:\<newline>'' @ findings,
                         calls @ calls2))
                  else (ustr ''Market Signals: '' @ uvz_clean @ ustr ''\<newline>\<newline>'' @ findings, calls))))"

definition generate_ebook_outline :: "world \<Rightarrow> ustring \<Rightarrow> ustring \<Rightarrow> ustring \<Rightarrow> ustring \<times> event list" where
  "generate_ebook_outline W topic audience length_arg =
     (if str_strip topic = [] then (ustr ''Error: Topic is required'', [])
      else if model W = None then (ustr ''Error: Gemini API key not configured'', [])
      else
        (let topic_clean = sanitize_input W topic;
             audience_clean = (if str_strip audience \<noteq> [] then sanitize_input W audience
                               else ustr ''general audience'')
         in case int_or_default W length_arg 50 of
              Inl e \<Rightarrow> (ustr ''Error: '' @ e, [])
            | Inr page_count \<Rightarrow>
                (let prompt = ustr ''Create comprehensive ebook outline for: Topic: '' @ topic_clean @ ustr '', Audience: '' @ audience_clean @ ustr '', Length: ~'' @ str_int page_count @ ustr '' pages. Include: Title, Subtitle, Target Reader, Chapter Structure (10+ chapters with objectives, sections, estimated pages), Unique Selling Points, Key Takeaways, Marketing Hooks.'';
                     (outline, calls) = gemini_analyze W prompt
                 in (ustr ''Ebook Outline Generated\<newline>\<newline>'' @ outline, calls))))"

definition expand_chapter :: "world \<Rightarrow> ustring \<Rightarrow> ustring \<Rightarrow> ustring \<times> event list" where
  "expand_chapter W chapter_title key_points =
     (if str_strip chapter_title = [] then (ustr ''Error: Chapter title is required'', [])
      else if model W = None then (ustr ''Error: Gemini API key not configured'', [])
      else
        (let chapter_clean = sanitize_input W chapter_title;
             points_clean = (if str_strip key_points \<noteq> [] then key_points
                             else ustr ''Cover the main aspects'');
             prompt = ustr ''Expand chapter: '' @ chapter_clean @ ustr ''. Key points: '' @ points_clean @ ustr ''. Provide: Opening Hook, Introduction, Main Sections (3-7 with key concepts, talking points, examples, mistakes to avoid, action steps), Chapter Summary, Transition. Include estimated word count and supporting elements needed.'';
             (expansion, calls) = gemini_analyze W prompt
         in (ustr ''Chapter Expansion: '' @ chapter_clean @ ustr ''\<newline>\<newline>'' @ expansion, calls)))"

definition generate_chapter_content :: "world \<Rightarrow> ustring \<Rightarrow> ustring \<Rightarrow> ustring \<Rightarrow> ustring \<times> event list" where
  "generate_chapter_content W chapter_title outline tone =
     (if str_strip chapter_title = [] \<or> str_strip outline = []
        then (ustr ''Error: Chapter title and outline required'', [])
      else if model W = None then (ustr ''Error: Gemini API key not configured'', [])
      else
        (let chapter_clean = sanitize_input W chapter_title;
             tone_clean = sanitize_input W tone;
             prompt = ustr ''Write full chapter in '' @ tone_clean @ ustr '' tone: '' @ chapter_clean @ ustr ''\<newline>\<newline>Outline:\<newline>'' @ outline @ ustr ''\<newline>\<newline>Requirements: engaging prose, examples, subheadings, bullet points for lists, actionable takeaways, 2000-3000 words.'';
             (content, calls) = gemini_analyze W prompt;
             word_count = int (length (str_split content))
         in (ustr ''Chapter Content: '' @ chapter_clean @ ustr ''\<newline>\<newline>'' @ content @ ustr ''\<newline>\<newline>Stats: ~'' @ str_int word_count @ ustr '' words, '' @ tone_clean @ ustr '' tone'',
             calls)))"

definition competitive_analysis :: "world \<Rightarrow> ustring \<Rightarrow> ustring \<Rightarrow> ustring \<times> event list" where
  "competitive_analysis W uvz competitors =
     (if str_strip uvz = [] then (ustr ''Error: UVZ description is required'', [])
      else
        (let uvz_clean = sanitize_input W uvz in
         case int_or_default W competitors 5 of
           Inl e \<Rightarrow> (ustr ''Error: '' @ e, [])
         | Inr num_competitors \<Rightarrow>
             (let (search_results, calls) = web_search_free W (uvz_clean @ ustr '' courses guides products solutions'');
                  results_data = json_loads search_results
              in if results_data = [] then (ustr ''No competitors found for: '' @ uvz_clean, calls)
                 else
                   (let competitors_text = source_listing (slice_to num_competitors results_data)
                    in if model W \<noteq> None then
                         (let analysis_prompt = ustr ''Analyze competitors for: '' @ uvz_clean @ ustr ''\<newline>\<newline>'' @ competitors_text @ ustr ''\<newline>\<newline>Provide: Market Saturation, Competitor Strengths, Weaknesses, Market Gaps, Differentiation Strategy, Positioning, Pricing Insights, Content Strategy.'';
                              (analysis, calls2) = gemini_analyze W analysis_prompt
                          in (ustr ''Competitive Analysis: '' @ uvz_clean @ ustr ''\<newline>\<newline>'' @ analysis @ ustr ''\<newline>\<newline>Competitors:\<newline>'' @ competitors_text,
                              calls @ calls2))
                       else (ustr ''Competitors: '' @ uvz_clean @ ustr ''\<newline>\<newline>'' @ competitors_text, calls)))))"

definition generate_marketing_copy :: "world \<Rightarrow> ustring \<Rightarrow> ustring \<Rightarrow> ustring \<Rightarrow> ustring \<times> event list" where
  "generate_marketing_copy W product_title uvz copy_type =
     (if str_strip product_title = [] \<or> str_strip uvz = []
        then (ustr ''Error: Product title and UVZ required'', [])
      else if model W = None then (ustr ''Error: Gemini API key not configured'', [])
      else
        (let title_clean = sanitize_input W product_title;
             uvz_clean = sanitize_input W uvz;
             copy_type_clean = sanitize_input W copy_type
         in case (if copy_type_clean = ustr ''landing_page'' then
                    Some (ustr ''Create high-converting landing page for: '' @ title_clean @ ustr '', UVZ: '' @ uvz_clean @ ustr ''. Include: Hero (headline, subheadline, CTA), Problem, Solution, Benefits, Social Proof, Features, Guarantee, Final CTA, FAQ.'')
                  else if copy_type_clean = ustr ''email_sequence'' then
                    Some (ustr ''Create 5-email sequence for: '' @ title_clean @ ustr '', UVZ: '' @ uvz_clean @ ustr ''. Each email: subject, preview, body (300-500 words), CTA. Emails: 1-Welcome, 2-Story+Problem, 3-Solution, 4-Social Proof, 5-Urgency.'')
                  else if copy_type_clean = ustr ''social_posts'' then
                    Some (ustr ''Create 10 social posts for: '' @ title_clean @ ustr '', UVZ: '' @ uvz_clean @ ustr ''. Include 3 educational, 3 engagement, 2 promotional, 2 testimonial posts. Each: platform, text, hashtags, visual description.'')
                  else None) of
              None \<Rightarrow> (ustr ''Error: Unknown copy type. Use: landing_page, email_sequence, or social_posts'', [])
            | Some prompt \<Rightarrow>
                (let (copy_content, calls) = gemini_analyze W prompt
                 in (ustr ''Marketing Copy: '' @ copy_type_clean @ ustr ''\<newline>\<newline>Product: '' @ title_clean @ ustr ''\<newline>\<newline>'' @ copy_content,
                     calls))))"

section \<open>Vocabulary of the properties and sample worlds\<close>

text \<open>A blank field: empty, or whitespace only.\<close>

definition blank :: "ustring \<Rightarrow> bool" where
  "blank s = list_all py_isspace s"

text \<open>The URLs fetched and the prompts sent, in order, among the calls of an operation.\<close>

fun http_calls :: "event list \<Rightarrow> ustring list" where
  "http_calls [] = []"
| "http_calls (HttpGet url # es) = url # http_calls es"
| "http_calls (GenerateContent prompt # es) = http_calls es"

fun backend_calls :: "event list \<Rightarrow> ustring list" where
  "backend_calls [] = []"
| "backend_calls (HttpGet url # es) = backend_calls es"
| "backend_calls (GenerateContent prompt # es) = prompt # backend_calls es"

text \<open>
  A sample runtime. Its character database is an excerpt, the Latin-1 Supplement block:
  the letters (U+00AA, U+00B5, U+00BA, U+00C0 to U+00FF without the signs U+00D7 and
  U+00F7) and the numeric characters (superscripts U+00B2, U+00B3, U+00B9 and fractions
  U+00BC to U+00BE) are alphanumeric, and none of the block is a decimal digit. Its
  \<open>py_repr\<close> puts the text between apostrophes, as \<^verbatim>\<open>repr\<close> does for a text
  of printable ASCII characters without apostrophe or backslash. The digit limit is the
  interpreter's default.
\<close>

definition latin1_runtime :: runtime where
  "latin1_runtime =
     \<lparr> uni_alnum = (\<lambda>c. c \<in> {0xAA, 0xB2, 0xB3, 0xB5, 0xB9, 0xBA, 0xBC, 0xBD, 0xBE} \<or>
                          (0xC0 \<le> c \<and> c \<le> 0xFF \<and> c \<noteq> 0xD7 \<and> c \<noteq> 0xF7)),
       uni_decimal = (\<lambda>c. None),
       py_repr = (\<lambda>s. apostrophe @ s @ apostrophe),
       int_max_str_digits = 4300 \<rparr>"

definition titled :: "string \<Rightarrow> result_div" where
  "titled t =
     \<lparr> result__a = Some \<lparr> a_text = ustr t, a_href = Some (ustr ''https://example.org/'' @ ustr t) \<rparr>,
       result__snippet = Some \<lparr> a_text = ustr ''about '' @ ustr t, a_href = None \<rparr> \<rparr>"

definition hit :: "string \<Rightarrow> search_result" where
  "hit t = \<lparr> title = ustr t, link = ustr ''https://example.org/'' @ ustr t, snippet = ustr ''about '' @ ustr t \<rparr>"

text \<open>
  A world with a credential, a backend that answers every prompt with
  \<^verbatim>\<open>MOCK_ANALYSIS\<close>, and a search endpoint that answers every query with the same
  page of five blocks, the third without a title anchor.
\<close>

definition mock_world :: world where
  "mock_world =
     \<lparr> uni_alnum = uni_alnum latin1_runtime,
       uni_decimal = uni_decimal latin1_runtime,
       py_repr = py_repr latin1_runtime,
       int_max_str_digits = int_max_str_digits latin1_runtime,
       GEMINI_API_KEY = ustr ''secret'',
       generate_content = (\<lambda>prompt. Inr (ustr ''MOCK_ANALYSIS'')),
       http_get = (\<lambda>url. Response 200
          (Soup [titled ''A'', titled ''B'', \<lparr> result__a = None, result__snippet = None \<rparr>,
                 titled ''C'', titled ''D''])) \<rparr>"

text \<open>The same world without a credential, and one whose search endpoint times out.\<close>

definition keyless_world :: world where
  "keyless_world = mock_world \<lparr> GEMINI_API_KEY := [] \<rparr>"

definition offline_world :: world where
  "offline_world = mock_world \<lparr> http_get := (\<lambda>url. Timeout) \<rparr>"

text \<open>A report that is an error and was produced without any call to the outside.\<close>

definition error_without_calls :: "ustring \<times> event list \<Rightarrow> bool" where
  "error_without_calls r \<longleftrightarrow> prefix (ustr ''Error:'') (fst r) \<and> snd r = []"

definition not_configured :: ustring where
  "not_configured = ustr ''Error: Gemini API key not configured''"

section \<open>Properties of the sanitizer\<close>

lemma re_sub_class_delete: "re_sub_class cls [] s = filter (\<lambda>c. \<not> cls c) s"
  by (induction s) simp_all

lemma sanitize_input_filter: "sanitize_input R text = filter (kept_char R) text"
  by (simp add: sanitize_input_def re_sub_class_delete)

lemma kept_char_ascii: "c < 128 \<Longrightarrow> kept_char R c = spec_allowed c"
  by (auto simp: kept_char_def spec_allowed_def re_word_def py_isalnum_def)

lemmas char_class_defs =
  kept_char_def re_word_def py_isalnum_def ascii_alnum_def py_isspace_def

lemma str_strip_blank: "str_strip s = [] \<longleftrightarrow> blank s"
proof -
  have "dropWhile py_isspace (rev (dropWhile py_isspace s)) = [] \<longleftrightarrow> dropWhile py_isspace s = []"
  proof (cases "dropWhile py_isspace s = []")
    case True
    then show ?thesis by (auto dest: set_dropWhileD)
  next
    case False
    then have "\<not> py_isspace (hd (dropWhile py_isspace s))" by (rule hd_dropWhile)
    moreover have "hd (dropWhile py_isspace s) \<in> set (rev (dropWhile py_isspace s))"
      using False by simp
    ultimately have "dropWhile py_isspace (rev (dropWhile py_isspace s)) \<noteq> []"
      by (metis dropWhile_eq_Nil_conv)
    with False show ?thesis by blast
  qed
  then show ?thesis
    by (simp add: str_strip_def blank_def list_all_iff)
qed

text \<open>
  C2, as the code has it: every character of \<open>sanitize(x)\<close> is a word character of
  Python's Unicode-aware \<^verbatim>\<open>\w\<close> (alphanumeric in the Unicode database, or
  underscore), whitespace, hyphen, comma or period; \<open>sanitize(x)\<close> is \<open>x\<close> with exactly
  the other characters removed; and a character below U+0080 that survives is in
  \<^verbatim>\<open>[A-Za-z0-9_\s\-,.]\<close>. The function is total: it fails on no string.
\<close>

theorem sanitize_input_charset:
  "(\<forall>c \<in> set (sanitize_input R x). kept_char R c) \<and>
   sanitize_input R x = filter (kept_char R) x \<and>
   (\<forall>c \<in> set (sanitize_input R x). c < 128 \<longrightarrow> spec_allowed c)"
  using kept_char_ascii[of _ R] by (auto simp: sanitize_input_filter)

theorem sanitize_input_charset_witness:
  "sanitize_input latin1_runtime (ustr ''<a>'' @ [0xE9]) = ustr ''a'' @ [0xE9] \<and>
   kept_char latin1_runtime 0xE9 \<and> spec_allowed (of_char CHR ''a'')"
  using sanitize_input_charset[of latin1_runtime "ustr ''<a>'' @ [0xE9]"]
  by (simp add: ustr_def char_class_defs latin1_runtime_def spec_allowed_def)

text \<open>
  C2 as the specification words it fails on a letter beyond ASCII: U+00E9 (e with acute
  accent) is a word character for \<^verbatim>\<open>\w\<close>, so it survives, and it is not in
  \<^verbatim>\<open>[A-Za-z0-9_\s\-,.]\<close>.
\<close>

theorem sanitize_input_keeps_e_acute:
  "sanitize_input latin1_runtime [0xE9] = [0xE9] \<and> \<not> spec_allowed 0xE9"
  by (simp add: sanitize_input_def char_class_defs latin1_runtime_def spec_allowed_def)

text \<open>
  C9: the sanitizer is idempotent, \<open>sanitize(sanitize(x)) = sanitize(x)\<close> for every
  string \<open>x\<close>, and it maps the empty string to the empty string.
\<close>

theorem sanitize_input_idempotent:
  "sanitize_input R (sanitize_input R x) = sanitize_input R x \<and> sanitize_input R [] = []"
  by (simp add: sanitize_input_filter)

section \<open>Basic facts about the operations\<close>

lemma not_blank_T: "str_strip (ustr ''T'') \<noteq> []" "str_strip (ustr ''U'') \<noteq> []"
  by (simp_all add: str_strip_blank blank_def ustr_def py_isspace_def)

lemma sanitize_bogus: "sanitize_input W (ustr ''bogus'') = ustr ''bogus''"
  by (simp add: sanitize_input_def char_class_defs ustr_def)




lemma slice_to_3: "slice_to 3 xs = take 3 xs"
  by (simp add: slice_to_def)

lemma demand_loop_eq:
  "demand_loop W qs (acc, tr) =
     (acc @ concat (map (\<lambda>q. take 3 (json_loads (fst (web_search_free W q)))) qs),
      tr @ map (\<lambda>q. HttpGet (search_url q)) qs)"
  by (induction qs arbitrary: acc tr) (simp_all add: web_search_free_def slice_to_3)

lemma http_calls_append: "http_calls (xs @ ys) = http_calls xs @ http_calls ys"
  by (induction xs rule: http_calls.induct) simp_all

lemma backend_calls_append: "backend_calls (xs @ ys) = backend_calls xs @ backend_calls ys"
  by (induction xs rule: backend_calls.induct) simp_all

lemma backend_calls_gets: "backend_calls (map (\<lambda>q. HttpGet (f q)) qs) = []"
  by (induction qs) simp_all

lemma gemini_analyze_None: "GEMINI_API_KEY W = [] \<Longrightarrow> gemini_analyze W p = (ustr ''Error: Gemini API key not configured'', [])"
  by (simp add: gemini_analyze_def model_def)

lemma gemini_analyze_Some:
  "GEMINI_API_KEY W \<noteq> [] \<Longrightarrow>
   gemini_analyze W p =
     ((case generate_content W p of Inl e \<Rightarrow> ustr ''Error: '' @ e | Inr t \<Rightarrow> t), [GenerateContent p])"
  by (simp add: gemini_analyze_def model_def)

section \<open>Search failures\<close>

text \<open>
  C3: when the GET raises a transport error or times out, when the status is not 2xx, or
  when reading or parsing the body raises, \<open>web_search_free\<close> returns the serialized
  empty list, which its callers load as the empty sequence. The function has no
  exceptional outcome: its handler catches every exception of the body.
\<close>

theorem web_search_free_soft_failure:
  assumes "http_get W (search_url q) = TransportError e \<or>
           http_get W (search_url q) = Timeout \<or>
           (http_get W (search_url q) = Response status page \<and> (status < 200 \<or> 299 < status)) \<or>
           http_get W (search_url q) = Response status (ParseRaises e)"
  shows "web_search_free W q = (Dumps [], [HttpGet (search_url q)]) \<and>
         json_loads (fst (web_search_free W q)) = []"
  using assms by (auto simp: web_search_free_def web_search_try_def)

theorem web_search_free_soft_failure_witness:
  "web_search_free offline_world (ustr ''q'') = (Dumps [], [HttpGet (search_url (ustr ''q''))]) \<and>
   json_loads (fst (web_search_free (mock_world \<lparr> http_get := (\<lambda>url. Response 503 (Soup [titled ''A''])) \<rparr>)
     (ustr ''q''))) = [] \<and>
   json_loads (fst (web_search_free (mock_world \<lparr> http_get := (\<lambda>url. Response 200 (ParseRaises [])) \<rparr>)
     (ustr ''q''))) = []"
  using web_search_free_soft_failure[of offline_world "ustr ''q''"]
    web_search_free_soft_failure[of "mock_world \<lparr> http_get := (\<lambda>url. Response 503 (Soup [titled ''A''])) \<rparr>"
      "ustr ''q''" _ 503 "Soup [titled ''A'']"]
    web_search_free_soft_failure[of "mock_world \<lparr> http_get := (\<lambda>url. Response 200 (ParseRaises [])) \<rparr>"
      "ustr ''q''" "[]" 200]
  by (simp add: offline_world_def)

section \<open>Validation of the arguments\<close>

text \<open>
  C5: with the backend configured, \<open>generate_marketing_copy\<close> with product title
  \<open>T\<close>, UVZ \<open>U\<close> and copy type \<open>bogus\<close> returns exactly the unknown-copy-type error
  and makes no call (so the backend is called zero times).
\<close>

theorem unknown_copy_type_rejected:
  assumes "GEMINI_API_KEY W \<noteq> []"
  shows "generate_marketing_copy W (ustr ''T'') (ustr ''U'') (ustr ''bogus'') =
           (ustr ''Error: Unknown copy type. Use: landing_page, email_sequence, or social_posts'', [])"
proof -
  have "ustr ''bogus'' \<noteq> ustr ''landing_page''" "ustr ''bogus'' \<noteq> ustr ''email_sequence''"
       "ustr ''bogus'' \<noteq> ustr ''social_posts''"
    by (simp_all add: ustr_def)
  then show ?thesis
    using assms by (simp add: generate_marketing_copy_def not_blank_T model_def sanitize_bogus)
qed

theorem unknown_copy_type_rejected_witness:
  "generate_marketing_copy mock_world (ustr ''T'') (ustr ''U'') (ustr ''bogus'') =
           (ustr ''Error: Unknown copy type. Use: landing_page, email_sequence, or social_posts'', [])"
  using unknown_copy_type_rejected[of mock_world]
  by (simp add: mock_world_def ustr_def)

text \<open>
  C6: for each of the nine operations, when every required field is blank (empty or
  whitespace only), the report starts with \<open>Error:\<close> and the operation makes no
  search call and no backend call. Here \<open>a\<close> is the first required field and \<open>b\<close> the
  second of the two operations that have two.
\<close>

theorem blank_required_fields_rejected:
  assumes "blank a" and "blank b"
  shows "error_without_calls (identify_industry_niches W a depth) \<and>
         error_without_calls (drill_uvz W a focus_area) \<and>
         error_without_calls (research_uvz_topic W a sources) \<and>
         error_without_calls (validate_uvz_demand W a) \<and>
         error_without_calls (generate_ebook_outline W a audience len) \<and>
         error_without_calls (expand_chapter W a key_points) \<and>
         error_without_calls (generate_chapter_content W a b tone) \<and>
         error_without_calls (competitive_analysis W a competitors) \<and>
         error_without_calls (generate_marketing_copy W a b copy_type)"
proof -
  have a: "str_strip a = []" and b: "str_strip b = []"
    using assms by (simp_all add: str_strip_blank)
  have 1: "error_without_calls (identify_industry_niches W a depth)"
    by (simp add: identify_industry_niches_def a error_without_calls_def ustr_def)
  have 2: "error_without_calls (drill_uvz W a focus_area)"
    by (simp add: drill_uvz_def a error_without_calls_def ustr_def)
  have 3: "error_without_calls (research_uvz_topic W a sources)"
    by (simp add: research_uvz_topic_def a error_without_calls_def ustr_def)
  have 4: "error_without_calls (validate_uvz_demand W a)"
    by (simp add: validate_uvz_demand_def a error_without_calls_def ustr_def)
  have 5: "error_without_calls (generate_ebook_outline W a audience len)"
    by (simp add: generate_ebook_outline_def a error_without_calls_def ustr_def)
  have 6: "error_without_calls (expand_chapter W a key_points)"
    by (simp add: expand_chapter_def a error_without_calls_def ustr_def)
  have 7: "error_without_calls (generate_chapter_content W a b tone)"
    by (simp add: generate_chapter_content_def a error_without_calls_def ustr_def)
  have 8: "error_without_calls (competitive_analysis W a competitors)"
    by (simp add: competitive_analysis_def a error_without_calls_def ustr_def)
  have 9: "error_without_calls (generate_marketing_copy W a b copy_type)"
    by (simp add: generate_marketing_copy_def a error_without_calls_def ustr_def)
  from 1 2 3 4 5 6 7 8 9 show ?thesis by simp
qed

theorem blank_required_fields_rejected_witness:
  "identify_industry_niches mock_world (ustr ''  '') (ustr ''3'') = (ustr ''Error: Industry name is required'', []) \<and>
   generate_chapter_content mock_world [] [9, 10] (ustr ''professional'') =
     (ustr ''Error: Chapter title and outline required'', []) \<and>
   error_without_calls (generate_marketing_copy mock_world [] [0x3000] (ustr ''landing_page''))"
proof -
  have "blank (ustr ''  '')" "blank []" "blank [9, 10]" "blank [0x3000]"
    by (simp_all add: blank_def ustr_def py_isspace_def)
  then show ?thesis
    using blank_required_fields_rejected[of "[]" "[0x3000]" mock_world]
    by (simp add: identify_industry_niches_def generate_chapter_content_def str_strip_blank)
qed


text \<open>
  C10: the copy type \<open>landing_page!\<close> is none of the three literals, yet with the
  backend configured and non-blank product title and UVZ, \<open>generate_marketing_copy\<close>
  does not return the unknown-copy-type error: the mode is sanitized before the dispatch,
  so the landing-page prompt is sent to the backend.
\<close>

theorem copy_type_sanitized_before_dispatch:
  assumes "GEMINI_API_KEY W \<noteq> []" and "\<not> blank t" and "\<not> blank u"
  shows "ustr ''landing_page!'' \<noteq> ustr ''landing_page'' \<and>
         ustr ''landing_page!'' \<noteq> ustr ''email_sequence'' \<and>
         ustr ''landing_page!'' \<noteq> ustr ''social_posts'' \<and>
         fst (generate_marketing_copy W t u (ustr ''landing_page!'')) \<noteq>
           ustr ''Error: Unknown copy type. Use: landing_page, email_sequence, or social_posts'' \<and>
         snd (generate_marketing_copy W t u (ustr ''landing_page!'')) =
           [GenerateContent (ustr ''Create high-converting landing page for: '' @ sanitize_input W t @ ustr '', UVZ: '' @ sanitize_input W u @ ustr ''. Include: Hero (headline, subheadline, CTA), Problem, Solution, Benefits, Social Proof, Features, Guarantee, Final CTA, FAQ.'')]"
proof -
  have s: "sanitize_input W (ustr ''landing_page!'') = ustr ''landing_page''"
    by (simp add: sanitize_input_def char_class_defs ustr_def)
  have n: "ustr ''landing_page!'' \<noteq> ustr ''landing_page''"
      "ustr ''landing_page!'' \<noteq> ustr ''email_sequence''"
      "ustr ''landing_page!'' \<noteq> ustr ''social_posts''"
    by (simp_all add: ustr_def)
  have m: "\<And>x. ustr ''Marketing Copy: '' @ x \<noteq>
      ustr ''Error: Unknown copy type. Use: landing_page, email_sequence, or social_posts''"
    by (simp add: ustr_def)
  have g: "generate_marketing_copy W t u (ustr ''landing_page!'') =
     (let prompt = ustr ''Create high-converting landing page for: '' @ sanitize_input W t @ ustr '', UVZ: '' @ sanitize_input W u @ ustr ''. Include: Hero (headline, subheadline, CTA), Problem, Solution, Benefits, Social Proof, Features, Guarantee, Final CTA, FAQ.''
      in (ustr ''Marketing Copy: '' @ ustr ''landing_page'' @ ustr ''\<newline>\<newline>Product: '' @ sanitize_input W t @ ustr ''\<newline>\<newline>'' @
            (case generate_content W prompt of Inl e \<Rightarrow> ustr ''Error: '' @ e | Inr x \<Rightarrow> x),
          [GenerateContent prompt]))"
    using assms
    by (simp add: generate_marketing_copy_def str_strip_blank model_def s gemini_analyze_Some Let_def)
  show ?thesis
    unfolding g Let_def using n m by simp
qed

theorem copy_type_sanitized_before_dispatch_witness:
  "fst (generate_marketing_copy mock_world (ustr ''T'') (ustr ''U'') (ustr ''landing_page!'')) =
     ustr ''Marketing Copy: landing_page\<newline>\<newline>Product: T\<newline>\<newline>MOCK_ANALYSIS'' \<and>
   snd (generate_marketing_copy mock_world (ustr ''T'') (ustr ''U'') (ustr ''landing_page!'')) =
     [GenerateContent (ustr ''Create high-converting landing page for: T, UVZ: U. Include: Hero (headline, subheadline, CTA), Problem, Solution, Benefits, Social Proof, Features, Guarantee, Final CTA, FAQ.'')]"
proof -
  have k: "GEMINI_API_KEY mock_world \<noteq> []" by (simp add: mock_world_def ustr_def)
  have b: "\<not> blank (ustr ''T'')" "\<not> blank (ustr ''U'')"
    by (simp_all add: blank_def ustr_def py_isspace_def)
  have s: "sanitize_input mock_world (ustr ''T'') = ustr ''T''" "sanitize_input mock_world (ustr ''U'') = ustr ''U''"
     "sanitize_input mock_world (ustr ''landing_page!'') = ustr ''landing_page''"
    by (simp_all add: sanitize_input_def char_class_defs ustr_def)
  have f: "fst (generate_marketing_copy mock_world (ustr ''T'') (ustr ''U'') (ustr ''landing_page!'')) =
     ustr ''Marketing Copy: landing_page\<newline>\<newline>Product: T\<newline>\<newline>MOCK_ANALYSIS''"
    using k b by (simp add: generate_marketing_copy_def str_strip_blank model_def s gemini_analyze_Some)
        (simp add: mock_world_def ustr_def)
  show ?thesis
    using copy_type_sanitized_before_dispatch[OF k b] f unfolding s by (simp add: ustr_def)
qed

section \<open>Without a credential\<close>

lemma py_int_error_text:
  "py_int W s = Inl e \<Longrightarrow> ustr ''Error: '' @ e \<noteq> not_configured"
  by (auto simp: py_int_def not_configured_def ustr_def split: sum.splits int_error.splits)

lemma int_or_default_error_text:
  "int_or_default W s d = Inl e \<Longrightarrow> ustr ''Error: '' @ e \<noteq> not_configured"
  by (auto simp: int_or_default_def dest: py_int_error_text split: if_splits)

lemma other_reports:
  "ustr ''No search results found for: '' @ x \<noteq> not_configured"
  "ustr ''Research Results: '' @ x \<noteq> not_configured"
  "ustr ''Limited demand signals found for: '' @ x \<noteq> not_configured"
  "ustr ''Market Signals: '' @ x \<noteq> not_configured"
  "ustr ''No competitors found for: '' @ x \<noteq> not_configured"
  "ustr ''Competitors: '' @ x \<noteq> not_configured"
  by (simp_all add: not_configured_def ustr_def)

lemma research_no_key:
  assumes "GEMINI_API_KEY W = []"
  shows "backend_calls (snd (research_uvz_topic W a sources)) = []"
    and "\<not> blank a \<Longrightarrow> fst (research_uvz_topic W a sources) \<noteq> not_configured"
  using assms
  by (auto simp: research_uvz_topic_def model_def web_search_free_def str_strip_blank
      other_reports Let_def dest: int_or_default_error_text split: sum.splits)

lemma validate_no_key:
  assumes "GEMINI_API_KEY W = []"
  shows "backend_calls (snd (validate_uvz_demand W a)) = []"
    and "\<not> blank a \<Longrightarrow> fst (validate_uvz_demand W a) \<noteq> not_configured"
  using assms
  by (auto simp: validate_uvz_demand_def model_def demand_loop_eq str_strip_blank
      other_reports Let_def backend_calls_gets)

lemma competitive_no_key:
  assumes "GEMINI_API_KEY W = []"
  shows "backend_calls (snd (competitive_analysis W a competitors)) = []"
    and "\<not> blank a \<Longrightarrow> fst (competitive_analysis W a competitors) \<noteq> not_configured"
  using assms
  by (auto simp: competitive_analysis_def model_def web_search_free_def str_strip_blank
      other_reports Let_def dest: int_or_default_error_text split: sum.splits)

lemma solo_coaches: "\<not> blank (ustr ''solo coaches'')"
  by (simp add: blank_def ustr_def py_isspace_def)

lemma sanitize_x: "sanitize_input W (ustr ''x'') = ustr ''x''"
  by (simp add: sanitize_input_def char_class_defs ustr_def)

lemma mock_search:
  "web_search_free mock_world q = (Dumps [hit ''A'', hit ''B'', hit ''C'', hit ''D''], [HttpGet (search_url q)])"
  "web_search_free keyless_world q = (Dumps [hit ''A'', hit ''B'', hit ''C'', hit ''D''], [HttpGet (search_url q)])"
  by (simp_all add: web_search_free_def web_search_try_def mock_world_def keyless_world_def
      result_entries_def titled_def hit_def)

text \<open>
  C4, as the code has it: when no credential is configured, the adapter and the six
  operations that have no search stage (\<open>identify_industry_niches\<close>, \<open>drill_uvz\<close>,
  \<open>generate_ebook_outline\<close>, \<open>expand_chapter\<close>, \<open>generate_chapter_content\<close>,
  \<open>generate_marketing_copy\<close>), called with non-blank required fields, return exactly
  \<open>Error: Gemini API key not configured\<close> and make no call; in particular
  \<open>drill_uvz\<close> with niche \<open>solo coaches\<close> does. The three operations with a search
  stage (\<open>research_uvz_topic\<close>, \<open>validate_uvz_demand\<close>, \<open>competitive_analysis\<close>)
  never call the backend either, but they return their search-only report (or their
  no-results or number-format message), never that string.
\<close>

theorem no_credential_degradation:
  assumes "GEMINI_API_KEY W = []" and "\<not> blank a" and "\<not> blank b"
  shows "gemini_analyze W prompt = (not_configured, []) \<and>
         identify_industry_niches W a depth = (not_configured, []) \<and>
         drill_uvz W a focus_area = (not_configured, []) \<and>
         generate_ebook_outline W a audience len = (not_configured, []) \<and>
         expand_chapter W a key_points = (not_configured, []) \<and>
         generate_chapter_content W a b tone = (not_configured, []) \<and>
         generate_marketing_copy W a b copy_type = (not_configured, []) \<and>
         drill_uvz W (ustr ''solo coaches'') [] = (not_configured, []) \<and>
         backend_calls (snd (research_uvz_topic W a sources)) = [] \<and>
         fst (research_uvz_topic W a sources) \<noteq> not_configured \<and>
         backend_calls (snd (validate_uvz_demand W a)) = [] \<and>
         fst (validate_uvz_demand W a) \<noteq> not_configured \<and>
         backend_calls (snd (competitive_analysis W a competitors)) = [] \<and>
         fst (competitive_analysis W a competitors) \<noteq> not_configured"
proof -
  have a: "str_strip a \<noteq> []" and b: "str_strip b \<noteq> []"
    and s: "str_strip (ustr ''solo coaches'') \<noteq> []"
    using assms solo_coaches by (simp_all add: str_strip_blank)
  have m: "model W = None" using assms(1) by (simp add: model_def)
  have 0: "gemini_analyze W prompt = (not_configured, [])"
    using assms(1) by (simp add: gemini_analyze_None not_configured_def)
  have 1: "identify_industry_niches W a depth = (not_configured, [])"
    by (simp add: identify_industry_niches_def a m not_configured_def)
  have 2: "drill_uvz W a focus_area = (not_configured, [])"
    by (simp add: drill_uvz_def a m not_configured_def)
  have 3: "generate_ebook_outline W a audience len = (not_configured, [])"
    by (simp add: generate_ebook_outline_def a m not_configured_def)
  have 4: "expand_chapter W a key_points = (not_configured, [])"
    by (simp add: expand_chapter_def a m not_configured_def)
  have 5: "generate_chapter_content W a b tone = (not_configured, [])"
    by (simp add: generate_chapter_content_def a b m not_configured_def)
  have 6: "generate_marketing_copy W a b copy_type = (not_configured, [])"
    by (simp add: generate_marketing_copy_def a b m not_configured_def)
  have 7: "drill_uvz W (ustr ''solo coaches'') [] = (not_configured, [])"
    by (simp add: drill_uvz_def s m not_configured_def)
  from 0 1 2 3 4 5 6 7 research_no_key[OF assms(1)] validate_no_key[OF assms(1)]
    competitive_no_key[OF assms(1)] assms(2)
  show ?thesis by simp
qed

theorem no_credential_degradation_witness:
  "drill_uvz keyless_world (ustr ''solo coaches'') [] = (ustr ''Error: Gemini API key not configured'', []) \<and>
   generate_marketing_copy keyless_world (ustr ''T'') (ustr ''U'') (ustr ''landing_page'') =
     (ustr ''Error: Gemini API key not configured'', []) \<and>
   backend_calls (snd (validate_uvz_demand keyless_world (ustr ''T''))) = []"
proof -
  have k: "GEMINI_API_KEY keyless_world = []" by (simp add: keyless_world_def)
  have b: "\<not> blank (ustr ''T'')" "\<not> blank (ustr ''U'')"
    by (simp_all add: blank_def ustr_def py_isspace_def)
  show ?thesis
    using no_credential_degradation[OF k b] by (simp add: not_configured_def)
qed

text \<open>
  C4 as the specification words it fails on an operation that uses the backend when it is
  there: without a credential, \<open>research_uvz_topic\<close> with the non-blank topic \<open>x\<close>
  returns the listing of the sources it found, not the fixed error string.
\<close>

theorem research_without_credential:
  "GEMINI_API_KEY keyless_world = [] \<and> \<not> blank (ustr ''x'') \<and>
   fst (research_uvz_topic keyless_world (ustr ''x'') (ustr ''2'')) =
     ustr ''Research Results: x\<newline>\<newline>Sources:\<newline>1. A\<newline>about A\<newline>https://example.org/A\<newline>\<newline>2. B\<newline>about B\<newline>https://example.org/B'' \<and>
   fst (research_uvz_topic keyless_world (ustr ''x'') (ustr ''2'')) \<noteq>
     ustr ''Error: Gemini API key not configured''"
proof -
  have i: "py_int keyless_world (ustr ''2'') = Inr 2"
    by (simp add: py_int_def transform_decimal_and_space_def long_from_string_def ustr_def
      c_isspace_def digit_or_underscore_def ascii_digit_def digits_value_def Let_def)
  have b: "\<not> blank (ustr ''x'')" "\<not> blank (ustr ''2'')"
    by (simp_all add: blank_def ustr_def py_isspace_def)
  have k: "GEMINI_API_KEY keyless_world = []" by (simp add: keyless_world_def)
  have h: "http_get keyless_world = (\<lambda>url. Response 200
          (Soup [titled ''A'', titled ''B'', \<lparr> result__a = None, result__snippet = None \<rparr>,
                 titled ''C'', titled ''D'']))"
    by (simp add: keyless_world_def mock_world_def)
  have w: "web_search_free keyless_world q = (Dumps [hit ''A'', hit ''B'', hit ''C'', hit ''D''], [HttpGet (search_url q)])" for q
    by (simp add: web_search_free_def web_search_try_def h result_entries_def titled_def hit_def)
  have l: "source_listing [hit ''A'', hit ''B''] = ustr ''1. A\<newline>about A\<newline>https://example.org/A\<newline>\<newline>2. B\<newline>about B\<newline>https://example.org/B''"
    by (simp add: source_listing_def enumerate_eq_zip hit_def str_int_def str_nat.simps ustr_def upt_rec)
  have r: "fst (research_uvz_topic keyless_world (ustr ''x'') (ustr ''2'')) =
     ustr ''Research Results: '' @ ustr ''x'' @ ustr ''\<newline>\<newline>Sources:\<newline>'' @ source_listing [hit ''A'', hit ''B'']"
    using b k by (simp add: research_uvz_topic_def str_strip_blank int_or_default_def i w sanitize_x
        model_def slice_to_def Let_def)
  show ?thesis
    unfolding r l using k b by (simp add: ustr_def)
qed

section \<open>Queries of the search-backed operations\<close>

text \<open>
  C8, as the code has it: \<open>validate_uvz_demand\<close> issues exactly three queries, in the
  order \<open>u problems\<close>, \<open>u solutions needed\<close>, \<open>how to u\<close> for the sanitized
  description \<open>u\<close>; each query's results are cut to the first 3 and the cut lists are
  concatenated in query order, nothing removed, and this list is what the prompt shows.
  \<open>competitive_analysis\<close> issues a single query, \<open>u courses guides products solutions\<close>,
  and cuts its results to the first \<open>num_competitors\<close> (5 when the field is blank).
\<close>

theorem multi_query_aggregation:
  assumes "\<not> blank d" and "int_or_default W c 5 = Inr n"
  shows "let u = sanitize_input W d;
             qs = [u @ ustr '' problems'', u @ ustr '' solutions needed'', ustr ''how to '' @ u];
             all_results = concat (map (\<lambda>q. take 3 (json_loads (fst (web_search_free W q)))) qs);
             q1 = u @ ustr '' courses guides products solutions'';
             rs = json_loads (fst (web_search_free W q1))
         in demand_loop W qs ([], []) = (all_results, map (\<lambda>q. HttpGet (search_url q)) qs) \<and>
            http_calls (snd (validate_uvz_demand W d)) = map search_url qs \<and>
            backend_calls (snd (validate_uvz_demand W d)) =
              (if all_results = [] \<or> GEMINI_API_KEY W = [] then []
               else [ustr ''Analyze market signals for: '' @ u @ ustr ''\<newline>\<newline>'' @ signal_listing all_results @ ustr ''\<newline>\<newline>Provide: Demand Level, Market Signals, Competition Analysis, Opportunity Score (1-10), Red Flags, Green Lights, Recommended Action (Go/No-Go).'']) \<and>
            http_calls (snd (competitive_analysis W d c)) = [search_url q1] \<and>
            backend_calls (snd (competitive_analysis W d c)) =
              (if rs = [] \<or> GEMINI_API_KEY W = [] then []
               else [ustr ''Analyze competitors for: '' @ u @ ustr ''\<newline>\<newline>'' @ source_listing (slice_to n rs) @ ustr ''\<newline>\<newline>Provide: Market Saturation, Competitor Strengths, Weaknesses, Market Gaps, Differentiation Strategy, Positioning, Pricing Insights, Content Strategy.'']) \<and>
            int_or_default W [] 5 = Inr 5"
proof -
  have d: "str_strip d \<noteq> []" using assms(1) by (simp add: str_strip_blank)
  have g: "gemini_analyze W p = (if GEMINI_API_KEY W = [] then (ustr ''Error: Gemini API key not configured'', [])
      else ((case generate_content W p of Inl e \<Rightarrow> ustr ''Error: '' @ e | Inr t \<Rightarrow> t), [GenerateContent p]))" for p
    by (simp add: gemini_analyze_None gemini_analyze_Some)
  have v1: "http_calls (snd (validate_uvz_demand W d)) =
      map search_url [sanitize_input W d @ ustr '' problems'', sanitize_input W d @ ustr '' solutions needed'', ustr ''how to '' @ sanitize_input W d]"
    by (simp add: validate_uvz_demand_def d demand_loop_eq g model_def Let_def http_calls_append)
  have v2: "backend_calls (snd (validate_uvz_demand W d)) =
      (let u = sanitize_input W d;
           all_results = concat (map (\<lambda>q. take 3 (json_loads (fst (web_search_free W q))))
              [u @ ustr '' problems'', u @ ustr '' solutions needed'', ustr ''how to '' @ u])
       in if all_results = [] \<or> GEMINI_API_KEY W = [] then []
          else [ustr ''Analyze market signals for: '' @ u @ ustr ''\<newline>\<newline>'' @ signal_listing all_results @ ustr ''\<newline>\<newline>Provide: Demand Level, Market Signals, Competition Analysis, Opportunity Score (1-10), Red Flags, Green Lights, Recommended Action (Go/No-Go).''])"
    by (simp add: validate_uvz_demand_def d demand_loop_eq g model_def Let_def backend_calls_append)
  have c1: "http_calls (snd (competitive_analysis W d c)) =
      [search_url (sanitize_input W d @ ustr '' courses guides products solutions'')]"
    by (simp add: competitive_analysis_def d assms(2) web_search_free_def g model_def Let_def)
  have c2: "backend_calls (snd (competitive_analysis W d c)) =
      (let u = sanitize_input W d;
           rs = json_loads (fst (web_search_free W (u @ ustr '' courses guides products solutions'')))
       in if rs = [] \<or> GEMINI_API_KEY W = [] then []
          else [ustr ''Analyze competitors for: '' @ u @ ustr ''\<newline>\<newline>'' @ source_listing (slice_to n rs) @ ustr ''\<newline>\<newline>Provide: Market Saturation, Competitor Strengths, Weaknesses, Market Gaps, Differentiation Strategy, Positioning, Pricing Insights, Content Strategy.''])"
    by (simp add: competitive_analysis_def d assms(2) web_search_free_def g model_def Let_def)
  have i: "int_or_default W [] 5 = Inr 5"
    by (simp add: int_or_default_def str_strip_def)
  show ?thesis
    unfolding Let_def using v1 v2 c1 c2 i by (simp add: demand_loop_eq Let_def)
qed

theorem multi_query_aggregation_witness:
  "demand_loop mock_world [ustr ''x problems'', ustr ''x solutions needed'', ustr ''how to x''] ([], []) =
     ([hit ''A'', hit ''B'', hit ''C'', hit ''A'', hit ''B'', hit ''C'', hit ''A'', hit ''B'', hit ''C''],
      [HttpGet (search_url (ustr ''x problems'')), HttpGet (search_url (ustr ''x solutions needed'')),
       HttpGet (search_url (ustr ''how to x''))]) \<and>
   http_calls (snd (validate_uvz_demand mock_world (ustr ''x''))) =
     [search_url (ustr ''x problems''), search_url (ustr ''x solutions needed''), search_url (ustr ''how to x'')] \<and>
   http_calls (snd (competitive_analysis mock_world (ustr ''x'') [])) =
     [search_url (ustr ''x courses guides products solutions'')]"
proof -
  have b: "\<not> blank (ustr ''x'')" by (simp add: blank_def ustr_def py_isspace_def)
  have i: "int_or_default mock_world [] 5 = Inr 5" by (simp add: int_or_default_def str_strip_def)
  have u: "ustr ''x'' @ ustr '' problems'' = ustr ''x problems''"
    "ustr ''x'' @ ustr '' solutions needed'' = ustr ''x solutions needed''"
    "ustr ''how to '' @ ustr ''x'' = ustr ''how to x''"
    "ustr ''x'' @ ustr '' courses guides products solutions'' = ustr ''x courses guides products solutions''"
    by (simp_all add: ustr_def)
  show ?thesis
    using multi_query_aggregation[OF b i] unfolding Let_def sanitize_x u
    by (simp add: mock_search)
qed

text \<open>
  C8 as the specification words it fails on \<open>competitive_analysis\<close>: it issues one
  query, not two or three, and lists the first five results of it, here all four, not the
  first three.
\<close>

theorem competitive_analysis_single_query:
  "http_calls (snd (competitive_analysis keyless_world (ustr ''x'') [])) =
     [search_url (ustr ''x courses guides products solutions'')] \<and>
   length (http_calls (snd (competitive_analysis keyless_world (ustr ''x'') []))) = 1 \<and>
   fst (competitive_analysis keyless_world (ustr ''x'') []) =
     ustr ''Competitors: x\<newline>\<newline>1. A\<newline>about A\<newline>https://example.org/A\<newline>\<newline>2. B\<newline>about B\<newline>https://example.org/B\<newline>\<newline>3. C\<newline>about C\<newline>https://example.org/C\<newline>\<newline>4. D\<newline>about D\<newline>https://example.org/D''"
proof -
  have b: "str_strip (ustr ''x'') \<noteq> []" by (simp add: str_strip_blank blank_def ustr_def py_isspace_def)
  have i: "int_or_default keyless_world [] 5 = Inr 5" by (simp add: int_or_default_def str_strip_def)
  have k: "model keyless_world = None" by (simp add: model_def keyless_world_def)
  have l: "source_listing [hit ''A'', hit ''B'', hit ''C'', hit ''D''] =
      ustr ''1. A\<newline>about A\<newline>https://example.org/A\<newline>\<newline>2. B\<newline>about B\<newline>https://example.org/B\<newline>\<newline>3. C\<newline>about C\<newline>https://example.org/C\<newline>\<newline>4. D\<newline>about D\<newline>https://example.org/D''"
    by (simp add: source_listing_def enumerate_eq_zip hit_def str_int_def str_nat.simps ustr_def upt_rec)
  have r: "competitive_analysis keyless_world (ustr ''x'') [] =
     (ustr ''Competitors: '' @ ustr ''x'' @ ustr ''\<newline>\<newline>'' @ source_listing [hit ''A'', hit ''B'', hit ''C'', hit ''D''],
      [HttpGet (search_url (ustr ''x'' @ ustr '' courses guides products solutions''))])"
    by (simp add: competitive_analysis_def b i k sanitize_x mock_search slice_to_def Let_def)
  show ?thesis
    unfolding r l by (simp add: ustr_def)
qed

section \<open>Free text that reaches the prompt unsanitized\<close>

lemma sanitize_samples:
  "sanitize_input W (ustr ''Intro'') = ustr ''Intro''"
  "sanitize_input W (ustr ''professional'') = ustr ''professional''"
  "sanitize_input W (ustr ''<script>'') = ustr ''script''"
  by (simp_all add: sanitize_input_def char_class_defs ustr_def)

text \<open>
  C1 does not hold of the code: \<open>expand_chapter\<close> puts \<open>key_points\<close> into its prompt
  as given, and \<open>generate_chapter_content\<close> puts \<open>outline\<close> into its prompt as given.
  With the text \<open><script>\<close> in either field, the prompt sent to the backend has
  \<open><script>\<close> in the slot, while its sanitized form is \<open>script\<close>.
\<close>

theorem raw_key_points_and_outline:
  "snd (expand_chapter mock_world (ustr ''Intro'') (ustr ''<script>'')) =
     [GenerateContent (ustr ''Expand chapter: '' @ ustr ''Intro'' @ ustr ''. Key points: '' @ ustr ''<script>'' @ ustr ''. Provide: Opening Hook, Introduction, Main Sections (3-7 with key concepts, talking points, examples, mistakes to avoid, action steps), Chapter Summary, Transition. Include estimated word count and supporting elements needed.'')] \<and>
   snd (generate_chapter_content mock_world (ustr ''Intro'') (ustr ''<script>'') (ustr ''professional'')) =
     [GenerateContent (ustr ''Write full chapter in '' @ ustr ''professional'' @ ustr '' tone: '' @ ustr ''Intro'' @ ustr ''\<newline>\<newline>Outline:\<newline>'' @ ustr ''<script>'' @ ustr ''\<newline>\<newline>Requirements: engaging prose, examples, subheadings, bullet points for lists, actionable takeaways, 2000-3000 words.'')] \<and>
   sanitize_input mock_world (ustr ''<script>'') = ustr ''script'' \<and>
   ustr ''<script>'' \<noteq> ustr ''script''"
proof -
  have b: "str_strip (ustr ''Intro'') \<noteq> []" "str_strip (ustr ''<script>'') \<noteq> []"
    by (simp_all add: str_strip_blank blank_def ustr_def py_isspace_def)
  have k: "GEMINI_API_KEY mock_world \<noteq> []" by (simp add: mock_world_def ustr_def)
  have m: "model mock_world \<noteq> None" using k by (simp add: model_def)
  have 1: "snd (expand_chapter mock_world (ustr ''Intro'') (ustr ''<script>'')) =
     [GenerateContent (ustr ''Expand chapter: '' @ ustr ''Intro'' @ ustr ''. Key points: '' @ ustr ''<script>'' @ ustr ''. Provide: Opening Hook, Introduction, Main Sections (3-7 with key concepts, talking points, examples, mistakes to avoid, action steps), Chapter Summary, Transition. Include estimated word count and supporting elements needed.'')]"
    by (simp add: expand_chapter_def b m sanitize_samples gemini_analyze_Some[OF k] Let_def)
  have 2: "snd (generate_chapter_content mock_world (ustr ''Intro'') (ustr ''<script>'') (ustr ''professional'')) =
     [GenerateContent (ustr ''Write full chapter in '' @ ustr ''professional'' @ ustr '' tone: '' @ ustr ''Intro'' @ ustr ''\<newline>\<newline>Outline:\<newline>'' @ ustr ''<script>'' @ ustr ''\<newline>\<newline>Requirements: engaging prose, examples, subheadings, bullet points for lists, actionable takeaways, 2000-3000 words.'')]"
    by (simp add: generate_chapter_content_def b m sanitize_samples gemini_analyze_Some[OF k] Let_def)
  have 3: "ustr ''<script>'' \<noteq> ustr ''script''" by (simp add: ustr_def)
  from 1 2 3 show ?thesis by (simp add: sanitize_samples)
qed

end
